theory Spec2Isabelle
  imports Complex_Main
begin

datatype expr =
    Symbol string
  | Integer int
  | Text string
  | App expr "expr list"

datatype exc = AssertionError | ValueError | AttributeError | TypeError | IndexError | KeyError

fun is_integer_atom :: "expr \<Rightarrow> bool" where
  "is_integer_atom (Integer n) = True"
| "is_integer_atom e = False"

fun int_of :: "expr \<Rightarrow> int" where
  "int_of (Integer n) = n"
| "int_of e = 0"

fun head :: "expr \<Rightarrow> expr option" where
  "head (App f xs) = Some f"
| "head e = None"

fun argl :: "expr \<Rightarrow> expr list" where
  "argl (App f xs) = xs"
| "argl e = []"

text \<open>
  \<open>Expr(call=c)\<close>, the branch \<open>elif call is not None\<close> of \<open>Expr.__new__\<close>:
  \<open>self._args = tuple(Expr(obj) for obj in call); assert len(self._args) >= 1\<close>.
\<close>

definition Expr_call :: "expr list \<Rightarrow> exc + expr" where
  "Expr_call call = (case call of [] \<Rightarrow> Inl AssertionError | f # xs \<Rightarrow> Inr (App f xs))"

text \<open>\<open>Expr.__call__(self, *args)\<close>: \<open>Expr(call=((self,) + args))\<close>.\<close>

definition call_expr :: "expr \<Rightarrow> expr list \<Rightarrow> exc + expr" where
  "call_expr self xs = Expr_call (self # xs)"

fun is_symbol :: "expr \<Rightarrow> bool" where
  "is_symbol (Symbol s) = True"
| "is_symbol e = False"

fun is_text :: "expr \<Rightarrow> bool" where
  "is_text (Text s) = True"
| "is_text e = False"

fun args :: "expr \<Rightarrow> expr list option" where
  "args (App f xs) = Some xs"
| "args e = None"

subsection \<open>Builtin symbols\<close>

abbreviation "Pos \<equiv> Symbol ''Pos''"
abbreviation "Neg \<equiv> Symbol ''Neg''"
abbreviation "Add \<equiv> Symbol ''Add''"
abbreviation "Sub \<equiv> Symbol ''Sub''"
abbreviation "Mul \<equiv> Symbol ''Mul''"
abbreviation "Div \<equiv> Symbol ''Div''"
abbreviation "Pow_sym \<equiv> Symbol ''Pow''"
abbreviation "Sqrt \<equiv> Symbol ''Sqrt''"
abbreviation "Exp \<equiv> Symbol ''Exp''"
abbreviation "Log \<equiv> Symbol ''Log''"
abbreviation "Sin \<equiv> Symbol ''Sin''"
abbreviation "Cos \<equiv> Symbol ''Cos''"
abbreviation "Cosh \<equiv> Symbol ''Cosh''"
abbreviation "Factorial \<equiv> Symbol ''Factorial''"
abbreviation "Pi \<equiv> Symbol ''Pi''"
abbreviation "ConstE \<equiv> Symbol ''ConstE''"
abbreviation "ConstI \<equiv> Symbol ''ConstI''"
abbreviation "ConstGamma \<equiv> Symbol ''ConstGamma''"
abbreviation "ConstCatalan \<equiv> Symbol ''ConstCatalan''"
abbreviation "GoldenRatio \<equiv> Symbol ''GoldenRatio''"
abbreviation "Infinity \<equiv> Symbol ''Infinity''"
abbreviation "UnsignedInfinity \<equiv> Symbol ''UnsignedInfinity''"
abbreviation "Undefined \<equiv> Symbol ''Undefined''"
abbreviation "ZZ \<equiv> Symbol ''ZZ''"
abbreviation "QQ \<equiv> Symbol ''QQ''"
abbreviation "RR \<equiv> Symbol ''RR''"
abbreviation "CC \<equiv> Symbol ''CC''"
abbreviation "Equal x y \<equiv> App (Symbol ''Equal'') [x, y]"
abbreviation "NotEqual x y \<equiv> App (Symbol ''NotEqual'') [x, y]"
abbreviation "Element x y \<equiv> App (Symbol ''Element'') [x, y]"
abbreviation "NotElement x y \<equiv> App (Symbol ''NotElement'') [x, y]"
abbreviation "Less x y \<equiv> App (Symbol ''Less'') [x, y]"
abbreviation "LessEqual x y \<equiv> App (Symbol ''LessEqual'') [x, y]"
abbreviation "Greater x y \<equiv> App (Symbol ''Greater'') [x, y]"
abbreviation "GreaterEqual x y \<equiv> App (Symbol ''GreaterEqual'') [x, y]"
abbreviation "HH \<equiv> Symbol ''HH''"
abbreviation "PP \<equiv> Symbol ''PP''"
abbreviation "AlgebraicNumbers \<equiv> Symbol ''AlgebraicNumbers''"
abbreviation "True_sym \<equiv> Symbol ''True_''"
abbreviation "False_sym \<equiv> Symbol ''False_''"
abbreviation "Tan \<equiv> Symbol ''Tan''"
abbreviation "Cot \<equiv> Symbol ''Cot''"
abbreviation "Csc \<equiv> Symbol ''Csc''"
abbreviation "Sec \<equiv> Symbol ''Sec''"
abbreviation "Im_sym \<equiv> Symbol ''Im''"
abbreviation "ZZGreaterEqual \<equiv> Symbol ''ZZGreaterEqual''"
abbreviation "ZZLessEqual \<equiv> Symbol ''ZZLessEqual''"
abbreviation "Range_sym \<equiv> Symbol ''Range''"
abbreviation "ClosedInterval \<equiv> Symbol ''ClosedInterval''"
abbreviation "OpenInterval \<equiv> Symbol ''OpenInterval''"
abbreviation "ClosedOpenInterval \<equiv> Symbol ''ClosedOpenInterval''"
abbreviation "OpenClosedInterval \<equiv> Symbol ''OpenClosedInterval''"
abbreviation "Set_sym \<equiv> Symbol ''Set''"
abbreviation "Union_sym \<equiv> Symbol ''Union''"
abbreviation "Intersection \<equiv> Symbol ''Intersection''"
abbreviation "SetMinus \<equiv> Symbol ''SetMinus''"
abbreviation "Not_sym \<equiv> Symbol ''Not''"
abbreviation "And \<equiv> Symbol ''And''"
abbreviation "Or \<equiv> Symbol ''Or''"
abbreviation "Implies \<equiv> Symbol ''Implies''"
abbreviation "Sum_sym \<equiv> Symbol ''Sum''"
abbreviation "For \<equiv> Symbol ''For''"

fun bits_of_nat :: "nat \<Rightarrow> nat" where
  "bits_of_nat n = (if n = 0 then 0 else Suc (bits_of_nat (n div 2)))"

declare bits_of_nat.simps [simp del]

definition bit_length :: "int \<Rightarrow> int" where
  "bit_length v = int (bits_of_nat (nat \<bar>v\<bar>))"

definition atom_complexity :: "expr \<Rightarrow> int" where
  "atom_complexity e =
     (if e \<in> set [True_sym, False_sym] then 1
      else if e \<in> set [Add, Sub, Neg, Pos, Mul] then 10
      else if e \<in> set [Div, Sqrt, GoldenRatio, ConstI] then 20
      else if e \<in> set [Pi, ConstE, Pow_sym, Symbol ''Exp'', Symbol ''Log'', Symbol ''Sin'',
                        Symbol ''Cos'', Symbol ''Tan'', Symbol ''Sinh'', Symbol ''Cosh'',
                        Symbol ''Tanh''] then 100
      else if e \<in> set [Symbol ''Gamma'', Symbol ''Erf'', Symbol ''Erfc'', Symbol ''Erfi'',
                        Symbol ''RiemannZeta'', ConstGamma, ConstCatalan] then 1000
      else 1000000)"

fun complexity :: "(expr \<rightharpoonup> int) \<Rightarrow> expr \<Rightarrow> int" where
  "complexity pen (App f xs) =
     (case pen (App f xs) of
        Some c \<Rightarrow> c
      | None \<Rightarrow> complexity pen f + 2 * sum_list (map (complexity pen) xs) + 1)"
| "complexity pen (Integer v) =
     (case pen (Integer v) of
        Some c \<Rightarrow> c
      | None \<Rightarrow> 1 + bit_length v + (if v < 0 then 1 else 0))"
| "complexity pen e =
     (case pen e of
        Some c \<Rightarrow> c
      | None \<Rightarrow> atom_complexity e)"

fun is_atom :: "expr \<Rightarrow> bool" where
  "is_atom (App f xs) = False"
| "is_atom e = True"

text \<open>\<open>Expr.replace(rules)\<close> in plain mode (\<open>semantic=False\<close>); the dictionary is an
  association list with distinct keys.\<close>

fun replace :: "(expr \<times> expr) list \<Rightarrow> expr \<Rightarrow> expr" where
  "replace rules (App f xs) =
     (case map_of rules (App f xs) of
        Some v \<Rightarrow> v
      | None \<Rightarrow> if rules = [] then App f xs
                else App (replace rules f) (map (replace rules) xs))"
| "replace rules e = (case map_of rules e of Some v \<Rightarrow> v | None \<Rightarrow> e)"


type_synonym tern = "bool option"

abbreviation yes :: tern where "yes \<equiv> Some True"
abbreviation no :: tern where "no \<equiv> Some False"
abbreviation unknown :: tern where "unknown \<equiv> None"

definition truthy :: "tern \<Rightarrow> bool" where
  "truthy v = (v = Some True)"

record arb =
  lower :: rat
  upper :: rat

record acb =
  real_part :: arb
  imag_part :: arb

definition arb_eq0 :: "arb \<Rightarrow> bool" where "arb_eq0 a = (lower a = 0 \<and> upper a = 0)"
definition arb_ne0 :: "arb \<Rightarrow> bool" where "arb_ne0 a = (0 < lower a \<or> upper a < 0)"
definition arb_ge0 :: "arb \<Rightarrow> bool" where "arb_ge0 a = (0 \<le> lower a)"
definition arb_gt0 :: "arb \<Rightarrow> bool" where "arb_gt0 a = (0 < lower a)"
definition arb_le0 :: "arb \<Rightarrow> bool" where "arb_le0 a = (upper a \<le> 0)"
definition arb_lt0 :: "arb \<Rightarrow> bool" where "arb_lt0 a = (upper a < 0)"
definition acb_ne0 :: "acb \<Rightarrow> bool" where
  "acb_ne0 v = (arb_ne0 (real_part v) \<or> arb_ne0 (imag_part v))"
definition acb_contains_integer :: "acb \<Rightarrow> bool" where
  "acb_contains_integer v =
     (lower (imag_part v) \<le> 0 \<and> 0 \<le> upper (imag_part v)
      \<and> of_int \<lceil>lower (real_part v)\<rceil> \<le> upper (real_part v))"

definition bindE :: "exc + 'a \<Rightarrow> ('a \<Rightarrow> exc + 'b) \<Rightarrow> exc + 'b" where
  "bindE m f = (case m of Inl e \<Rightarrow> Inl e | Inr v \<Rightarrow> f v)"

definition and_then :: "exc + tern \<Rightarrow> exc + bool \<Rightarrow> exc + bool" where
  "and_then m k = (case m of Inl e \<Rightarrow> Inl e | Inr v \<Rightarrow> if truthy v then k else Inr False)"

definition or_else :: "exc + tern \<Rightarrow> exc + bool \<Rightarrow> exc + bool" where
  "or_else m k = (case m of Inl e \<Rightarrow> Inl e | Inr v \<Rightarrow> if truthy v then Inr True else k)"

definition holds :: "exc + tern \<Rightarrow> exc + bool" where
  "holds m = and_then m (Inr True)"

definition return_if :: "exc + bool \<Rightarrow> 'a \<Rightarrow> exc + 'a option" where
  "return_if c v = (case c of Inl e \<Rightarrow> Inl e | Inr b \<Rightarrow> Inr (if b then Some v else None))"

definition then_try :: "exc + 'a option \<Rightarrow> exc + 'a option \<Rightarrow> exc + 'a option" where
  "then_try m k = (case m of Inl e \<Rightarrow> Inl e | Inr (Some v) \<Rightarrow> Inr (Some v) | Inr None \<Rightarrow> k)"

definition or_finally :: "exc + 'a option \<Rightarrow> exc + 'a \<Rightarrow> exc + 'a" where
  "or_finally m k = (case m of Inl e \<Rightarrow> Inl e | Inr (Some v) \<Rightarrow> Inr v | Inr None \<Rightarrow> k)"

fun all_truthy :: "('a \<Rightarrow> exc + tern) \<Rightarrow> 'a list \<Rightarrow> exc + bool" where
  "all_truthy f [] = Inr True"
| "all_truthy f (x # xs) =
     (case f x of Inl e \<Rightarrow> Inl e | Inr v \<Rightarrow> if truthy v then all_truthy f xs else Inr False)"

fun any_truthy :: "('a \<Rightarrow> exc + tern) \<Rightarrow> 'a list \<Rightarrow> exc + bool" where
  "any_truthy f [] = Inr False"
| "any_truthy f (x # xs) =
     (case f x of Inl e \<Rightarrow> Inl e | Inr v \<Rightarrow> if truthy v then Inr True else any_truthy f xs)"

lemma bindE_cong [fundef_cong]:
  "m = m' \<Longrightarrow> (\<And>v. m' = Inr v \<Longrightarrow> f v = f' v) \<Longrightarrow> bindE m f = bindE m' f'"
  by (auto simp: bindE_def split: sum.splits)

lemma and_then_cong [fundef_cong]:
  "m = m' \<Longrightarrow> (\<And>v. m' = Inr v \<Longrightarrow> truthy v \<Longrightarrow> k = k') \<Longrightarrow> and_then m k = and_then m' k'"
  by (auto simp: and_then_def split: sum.splits)

lemma or_else_cong [fundef_cong]:
  "m = m' \<Longrightarrow> (\<And>v. m' = Inr v \<Longrightarrow> \<not> truthy v \<Longrightarrow> k = k') \<Longrightarrow> or_else m k = or_else m' k'"
  by (auto simp: or_else_def split: sum.splits)

lemma then_try_cong [fundef_cong]:
  "m = m' \<Longrightarrow> (m' = Inr None \<Longrightarrow> k = k') \<Longrightarrow> then_try m k = then_try m' k'"
  by (auto simp: then_try_def split: sum.splits option.splits)

lemma or_finally_cong [fundef_cong]:
  "m = m' \<Longrightarrow> (m' = Inr None \<Longrightarrow> k = k') \<Longrightarrow> or_finally m k = or_finally m' k'"
  by (auto simp: or_finally_def split: sum.splits option.splits)

lemma all_truthy_cong [fundef_cong]:
  "xs = ys \<Longrightarrow> (\<And>x. x \<in> set ys \<Longrightarrow> f x = g x) \<Longrightarrow> all_truthy f xs = all_truthy g ys"
  by (induction ys arbitrary: xs) (auto split: sum.splits)

lemma any_truthy_cong [fundef_cong]:
  "xs = ys \<Longrightarrow> (\<And>x. x \<in> set ys \<Longrightarrow> f x = g x) \<Longrightarrow> any_truthy f xs = any_truthy g ys"
  by (induction ys arbitrary: xs) (auto split: sum.splits)

lemma size_member_le: "a \<in> set xs \<Longrightarrow> size a \<le> size_list size xs"
  by (induction xs) auto

lemma size_argl: "a \<in> set (argl x) \<Longrightarrow> size (a::expr) < size x"
proof (cases x)
  case (App f xs)
  assume "a \<in> set (argl x)"
  with App have "size a \<le> size_list size xs" by (simp add: size_member_le)
  with App show ?thesis by simp
qed simp_all

definition positive_real_constants :: "expr set" where
  "positive_real_constants = {Pi, ConstE, ConstGamma, ConstCatalan, GoldenRatio}"

definition complex_constants :: "expr set" where
  "complex_constants = positive_real_constants \<union> {ConstI}"

definition head_in :: "expr \<Rightarrow> expr list \<Rightarrow> bool" where
  "head_in x hs = (case head x of None \<Rightarrow> False | Some h \<Rightarrow> h \<in> set hs)"

datatype pred =
    IsZero | IsNotZero | IsInfinity | IsNonnegative | IsPositive | IsNegative
  | IsNonpositive | IsInteger | IsRational | IsReal | IsComplex

fun pred_rank :: "pred \<Rightarrow> nat" where
  "pred_rank IsInfinity = 0"
| "pred_rank IsNegative = 0"
| "pred_rank IsNonpositive = 0"
| "pred_rank IsInteger = 1"
| "pred_rank IsRational = 2"
| "pred_rank IsReal = 3"
| "pred_rank IsComplex = 4"
| "pred_rank IsPositive = 4"
| "pred_rank IsNonnegative = 4"
| "pred_rank IsZero = 5"
| "pred_rank IsNotZero = 6"

type_synonym enclosure = "expr \<Rightarrow> exc + acb option"

function prd :: "enclosure \<Rightarrow> expr set \<Rightarrow> pred \<Rightarrow> expr \<Rightarrow> exc + tern" where
  "prd ce fs IsZero x =
     (if is_integer_atom x then Inr (Some (int_of x = 0))
      else if Equal x (Integer 0) \<in> fs then Inr yes
      else if NotEqual x (Integer 0) \<in> fs then Inr no
      else if Greater x (Integer 0) \<in> fs then Inr no
      else if Less x (Integer 0) \<in> fs then Inr no
      else
        or_finally (bindE (prd ce fs IsInteger x) (\<lambda>v. Inr (if v = no then Some no else None)))
       (or_finally (return_if (holds (prd ce fs IsPositive x)) no)
       (or_finally (bindE (ce x) (\<lambda>val. Inr (case val of None \<Rightarrow> None
                                                | Some v \<Rightarrow> if acb_ne0 v then Some no else None)))
       (or_finally (return_if (holds (prd ce fs IsInfinity x)) no)
       (Inr unknown)))))"
| "prd ce fs IsNotZero x =
     bindE (prd ce fs IsZero x)
       (\<lambda>v. Inr (case v of None \<Rightarrow> None | Some b \<Rightarrow> Some (\<not> b)))"
| "prd ce fs IsInfinity x =
     (if x = Infinity then Inr yes
      else if x = UnsignedInfinity then Inr yes
      else if x = Undefined then Inr no
      else if Element x CC \<in> fs then Inr no
      else
        or_finally
          (if head_in x [Pos, Neg]
           then (case argl x of
                   [arg] \<Rightarrow> return_if (holds (prd ce fs IsInfinity arg)) yes
                 | _ \<Rightarrow> Inl ValueError)
           else Inr None)
       (or_finally
          (if head x = Some Mul
           then return_if
                  (bindE (any_truthy (\<lambda>arg. prd ce fs IsInfinity arg) (argl x))
                     (\<lambda>a. if a
                           then all_truthy
                                  (\<lambda>arg. bindE (prd ce fs IsInfinity arg)
                                     (\<lambda>i. if truthy i then Inr i
                                           else bindE (prd ce fs IsComplex arg)
                                                  (\<lambda>c. if truthy c then prd ce fs IsNotZero arg
                                                        else Inr c)))
                                  (argl x)
                           else Inr False))
                  yes
           else Inr None)
       (bindE (ce x) (\<lambda>val. Inr (if val \<noteq> None then no else unknown)))))"
| "prd ce fs IsNonnegative x =
     (if is_integer_atom x then Inr (Some (int_of x \<ge> 0))
      else if x \<in> positive_real_constants then Inr yes
      else if GreaterEqual x (Integer 0) \<in> fs then Inr yes
      else if Greater x (Integer 0) \<in> fs then Inr yes
      else if Less x (Integer 0) \<in> fs then Inr no
      else
        or_finally
          (bindE (prd ce fs IsReal x)
             (\<lambda>r. if truthy r
                   then then_try
                          (if head_in x [Pos, Add, Mul, Exp, Sqrt]
                           then return_if (all_truthy (\<lambda>arg. prd ce fs IsNonnegative arg) (argl x)) yes
                           else Inr None)
                       (then_try
                          (if head x = Some Div
                           then (case argl x of
                                   [p, q] \<Rightarrow> return_if (and_then (prd ce fs IsNonnegative p)
                                                          (holds (prd ce fs IsPositive q))) yes
                                 | _ \<Rightarrow> Inl ValueError)
                           else Inr None)
                          (if head x = Some Pow_sym
                           then (case argl x of
                                   [base, ex] \<Rightarrow> return_if (holds (prd ce fs IsPositive base)) yes
                                 | _ \<Rightarrow> Inl ValueError)
                           else Inr None))
                   else Inr None))
          (bindE (ce x)
             (\<lambda>val. Inr (case val of
                            None \<Rightarrow> unknown
                          | Some v \<Rightarrow>
                              if arb_eq0 (imag_part v) \<and> arb_ge0 (real_part v) then yes
                              else if arb_ne0 (imag_part v) \<or> arb_lt0 (real_part v) then no
                              else unknown))))"
| "prd ce fs IsPositive x =
     (if is_integer_atom x then Inr (Some (int_of x > 0))
      else if x \<in> positive_real_constants then Inr yes
      else if Greater x (Integer 0) \<in> fs then Inr yes
      else if LessEqual x (Integer 0) \<in> fs then Inr no
      else if Less x (Integer 0) \<in> fs then Inr no
      else
        or_finally
          (bindE (prd ce fs IsReal x)
             (\<lambda>r. if truthy r
                   then then_try
                          (if head_in x [Exp, Cosh]
                           then (case argl x of
                                   [t] \<Rightarrow> return_if (holds (prd ce fs IsReal t)) yes
                                 | _ \<Rightarrow> Inl ValueError)
                           else Inr None)
                       (then_try
                          (if head_in x [Pos, Add, Mul, Sqrt]
                           then return_if (all_truthy (\<lambda>arg. prd ce fs IsPositive arg) (argl x)) yes
                           else Inr None)
                       (then_try
                          (if head x = Some Div
                           then (case argl x of
                                   [p, q] \<Rightarrow> return_if (and_then (prd ce fs IsPositive p)
                                                          (holds (prd ce fs IsPositive q))) yes
                                 | _ \<Rightarrow> Inl ValueError)
                           else Inr None)
                          (if head x = Some Pow_sym
                           then (case argl x of
                                   [base, ex] \<Rightarrow> return_if (holds (prd ce fs IsPositive base)) yes
                                 | _ \<Rightarrow> Inl ValueError)
                           else Inr None)))
                   else Inr None))
          (bindE (ce x)
             (\<lambda>val. Inr (case val of
                            None \<Rightarrow> unknown
                          | Some v \<Rightarrow>
                              if arb_eq0 (imag_part v) \<and> arb_gt0 (real_part v) then yes
                              else if arb_ne0 (imag_part v) \<or> arb_le0 (real_part v) then no
                              else unknown))))"
| "prd ce fs IsNegative x =
     (if is_integer_atom x then Inr (Some (int_of x < 0))
      else if x \<in> positive_real_constants then Inr no
      else if Less x (Integer 0) \<in> fs then Inr yes
      else if GreaterEqual x (Integer 0) \<in> fs then Inr no
      else if Greater x (Integer 0) \<in> fs then Inr no
      else
        bindE (ce x)
          (\<lambda>val. Inr (case val of
                         None \<Rightarrow> unknown
                       | Some v \<Rightarrow>
                           if arb_eq0 (imag_part v) \<and> arb_lt0 (real_part v) then yes
                           else if arb_ne0 (imag_part v) \<or> arb_ge0 (real_part v) then no
                           else unknown)))"
| "prd ce fs IsNonpositive x =
     (if is_integer_atom x then Inr (Some (int_of x \<le> 0))
      else if x \<in> positive_real_constants then Inr no
      else if LessEqual x (Integer 0) \<in> fs then Inr yes
      else if Less x (Integer 0) \<in> fs then Inr yes
      else if Greater x (Integer 0) \<in> fs then Inr no
      else
        bindE (ce x)
          (\<lambda>val. Inr (case val of
                         None \<Rightarrow> unknown
                       | Some v \<Rightarrow>
                           if arb_eq0 (imag_part v) \<and> arb_le0 (real_part v) then yes
                           else if arb_ne0 (imag_part v) \<or> arb_gt0 (real_part v) then no
                           else unknown)))"
| "prd ce fs IsInteger x =
     (if is_integer_atom x then Inr yes
      else if Element x ZZ \<in> fs then Inr yes
      else if NotElement x ZZ \<in> fs then Inr no
      else
        or_finally
          (if head_in x [Pos, Neg, Add, Sub, Mul]
           then return_if (all_truthy (\<lambda>arg. prd ce fs IsInteger arg) (argl x)) yes
           else Inr None)
       (or_finally
          (if head x = Some Pow_sym
           then (case argl x of
                   [base, ex] \<Rightarrow> return_if (and_then (prd ce fs IsInteger base)
                                             (and_then (prd ce fs IsInteger ex)
                                             (holds (prd ce fs IsNonnegative ex)))) yes
                 | _ \<Rightarrow> Inl ValueError)
           else Inr None)
       (or_finally
          (if head x = Some Factorial
           then (case argl x of
                   [n] \<Rightarrow> return_if (and_then (prd ce fs IsInteger n)
                                     (holds (prd ce fs IsNonnegative n))) yes
                 | _ \<Rightarrow> Inl ValueError)
           else Inr None)
       (if x \<in> complex_constants then Inr no
        else
          or_finally
            (bindE (ce x)
               (\<lambda>val. Inr (case val of
                              None \<Rightarrow> None
                            | Some v \<Rightarrow> if \<not> acb_contains_integer v then Some no else None)))
         (or_finally
            (return_if (or_else (prd ce fs IsInfinity x) (Inr (x = Undefined))) no)
            (Inr unknown))))))"
| "prd ce fs IsRational x =
     or_finally (return_if (holds (prd ce fs IsInteger x)) yes)
       (if Element x QQ \<in> fs then Inr yes
        else if NotElement x QQ \<in> fs then Inr no
        else if x = Pi \<or> x = ConstE then Inr no
        else
          or_finally
            (if head_in x [Pos, Neg, Add, Sub, Mul]
             then return_if (all_truthy (\<lambda>arg. prd ce fs IsRational arg) (argl x)) yes
             else Inr None)
         (or_finally
            (if head x = Some Div
             then (case argl x of
                     [p, q] \<Rightarrow> return_if (and_then (prd ce fs IsRational p)
                                            (and_then (prd ce fs IsRational q)
                                            (holds (prd ce fs IsNotZero q)))) yes
                   | _ \<Rightarrow> Inl ValueError)
             else Inr None)
         (or_finally
            (if head x = Some Pow_sym
             then (case argl x of
                     [base, ex] \<Rightarrow> return_if (and_then (prd ce fs IsRational base)
                                               (and_then (prd ce fs IsInteger ex)
                                               (or_else (prd ce fs IsNotZero base)
                                                        (holds (prd ce fs IsNonnegative ex))))) yes
                   | _ \<Rightarrow> Inl ValueError)
             else Inr None)
         (or_finally
            (if head x = Some Sqrt
             then (case argl x of
                     [v] \<Rightarrow> Inr (if is_integer_atom v
                                 then (if int_of v < 0 then Some no
                                       else if int_of v \<le> 100
                                       then Some (Some (int_of v \<in> set [0, 1, 4, 9, 16, 25, 36, 49, 64, 81, 100]))
                                       else None)
                                 else None)
                   | _ \<Rightarrow> Inl ValueError)
             else Inr None)
         (or_finally
            (return_if (or_else (prd ce fs IsInfinity x) (Inr (x = Undefined))) no)
            (Inr unknown))))))"
| "prd ce fs IsReal x =
     or_finally (return_if (holds (prd ce fs IsRational x)) yes)
       (if Element x RR \<in> fs then Inr yes
        else if NotElement x RR \<in> fs then Inr no
        else if x \<in> set [Pi, ConstGamma, ConstE, ConstCatalan] then Inr yes
        else if x = ConstI then Inr no
        else
          or_finally
            (if head_in x [Pos, Neg, Add, Sub, Mul, Exp, Sin, Cos]
             then return_if (all_truthy (\<lambda>arg. prd ce fs IsReal arg) (argl x)) yes
             else Inr None)
         (or_finally
            (if head x = Some Div
             then (case argl x of
                     [p, q] \<Rightarrow> return_if (and_then (prd ce fs IsReal p)
                                            (and_then (prd ce fs IsReal q)
                                            (holds (prd ce fs IsNotZero q)))) yes
                   | _ \<Rightarrow> Inl ValueError)
             else Inr None)
         (or_finally
            (if head x = Some Sqrt
             then (case argl x of
                     [arg] \<Rightarrow> return_if (and_then (prd ce fs IsReal arg)
                                           (holds (prd ce fs IsNonnegative arg))) yes
                   | _ \<Rightarrow> Inl ValueError)
             else Inr None)
         (or_finally
            (if head x = Some Log
             then (case argl x of
                     [arg] \<Rightarrow> return_if (and_then (prd ce fs IsReal arg)
                                           (holds (prd ce fs IsPositive arg))) yes
                   | _ \<Rightarrow> Inl ValueError)
             else Inr None)
         (or_finally
            (if head x = Some Pow_sym
             then (case argl x of
                     [base, ex] \<Rightarrow>
                       bindE (and_then (prd ce fs IsReal base) (holds (prd ce fs IsReal ex)))
                         (\<lambda>both. if both
                            then then_try
                                   (return_if (and_then (prd ce fs IsPositive base)
                                                 (holds (prd ce fs IsPositive ex))) yes)
                                (then_try
                                   (return_if (and_then (prd ce fs IsNotZero base)
                                                 (holds (prd ce fs IsInteger ex))) yes)
                                   (return_if (and_then (prd ce fs IsInteger ex)
                                                 (holds (prd ce fs IsNonnegative ex))) yes))
                            else Inr None)
                   | _ \<Rightarrow> Inl ValueError)
             else Inr None)
         (or_finally
            (bindE (ce x)
               (\<lambda>val. Inr (case val of
                              None \<Rightarrow> None
                            | Some v \<Rightarrow> if arb_eq0 (imag_part v) then Some yes
                                        else if arb_ne0 (imag_part v) then Some no
                                        else None)))
         (or_finally
            (return_if (or_else (prd ce fs IsInfinity x) (Inr (x = Undefined))) no)
            (Inr unknown))))))))"
| "prd ce fs IsComplex x =
     or_finally (return_if (holds (prd ce fs IsReal x)) yes)
       (if x = ConstI then Inr yes
        else if Element x CC \<in> fs then Inr yes
        else if NotElement x CC \<in> fs then Inr no
        else
          or_finally
            (if head_in x [Pos, Neg, Add, Sub, Mul, Sqrt, Exp, Sin, Cos]
             then return_if (all_truthy (\<lambda>arg. prd ce fs IsComplex arg) (argl x)) yes
             else Inr None)
         (or_finally
            (if head x = Some Div
             then (case argl x of
                     [p, q] \<Rightarrow> return_if (and_then (prd ce fs IsComplex p)
                                            (and_then (prd ce fs IsComplex q)
                                            (holds (prd ce fs IsNotZero q)))) yes
                   | _ \<Rightarrow> Inl ValueError)
             else Inr None)
         (or_finally
            (if head x = Some Pow_sym
             then (case argl x of
                     [base, ex] \<Rightarrow> return_if (and_then (prd ce fs IsComplex base)
                                               (and_then (prd ce fs IsComplex ex)
                                               (or_else (prd ce fs IsNotZero base)
                                                  (and_then (prd ce fs IsReal ex)
                                                     (holds (prd ce fs IsPositive ex)))))) yes
                   | _ \<Rightarrow> Inl ValueError)
             else Inr None)
         (or_finally
            (if head x = Some Log
             then (case argl x of
                     [arg] \<Rightarrow> return_if (and_then (prd ce fs IsComplex arg)
                                           (holds (prd ce fs IsNotZero arg))) yes
                   | _ \<Rightarrow> Inl ValueError)
             else Inr None)
         (or_finally
            (return_if (or_else (prd ce fs IsInfinity x) (Inr (x = Undefined))) no)
            (Inr unknown))))))"
  by pat_completeness auto

lemma size_argl1: "argl x = [a] \<Longrightarrow> size a < size x"
  by (rule size_argl) simp

lemma size_argl2: "argl x = [a, b] \<Longrightarrow> size a < size x \<and> size b < size x"
  by (simp add: size_argl)

termination prd
  by (relation "measures [\<lambda>(ce, fs, k, x). size x, \<lambda>(ce, fs, k, x). pred_rank k]")
     (auto simp: size_argl size_argl1 size_argl2)

definition acb_overlaps :: "acb \<Rightarrow> acb \<Rightarrow> bool" where
  "acb_overlaps v w =
     (lower (real_part v) \<le> upper (real_part w) \<and> lower (real_part w) \<le> upper (real_part v)
      \<and> lower (imag_part v) \<le> upper (imag_part w) \<and> lower (imag_part w) \<le> upper (imag_part v))"

definition acb_contains_zero :: "acb \<Rightarrow> bool" where
  "acb_contains_zero v =
     (lower (real_part v) \<le> 0 \<and> 0 \<le> upper (real_part v)
      \<and> lower (imag_part v) \<le> 0 \<and> 0 \<le> upper (imag_part v))"

datatype 'a outcome = Returns 'a | Raises exc | Unfinished

record state =
  simple_cache :: "expr \<rightharpoonup> expr option"
  alg_degree_limit :: int
  alg_bits_limit :: int

type_synonym 'a M = "state \<Rightarrow> 'a outcome \<times> state"

definition ret :: "'a \<Rightarrow> 'a M" where
  "ret v = (\<lambda>s. (Returns v, s))"

definition raise :: "exc \<Rightarrow> 'a M" where
  "raise e = (\<lambda>s. (Raises e, s))"

definition unfinished :: "'a M" where
  "unfinished = (\<lambda>s. (Unfinished, s))"

definition bindM :: "'a M \<Rightarrow> ('a \<Rightarrow> 'b M) \<Rightarrow> 'b M" where
  "bindM m f = (\<lambda>s. case m s of
                      (Returns v, s') \<Rightarrow> f v s'
                    | (Raises e, s') \<Rightarrow> (Raises e, s')
                    | (Unfinished, s') \<Rightarrow> (Unfinished, s'))"

definition lift :: "exc + 'a \<Rightarrow> 'a M" where
  "lift r = (case r of Inl e \<Rightarrow> raise e | Inr v \<Rightarrow> ret v)"

fun mapM :: "('a \<Rightarrow> 'b M) \<Rightarrow> 'a list \<Rightarrow> 'b list M" where
  "mapM f [] = ret []"
| "mapM f (x # xs) = bindM (f x) (\<lambda>y. bindM (mapM f xs) (\<lambda>ys. ret (y # ys)))"

lemma bindM_cong [fundef_cong]:
  "m = m' \<Longrightarrow> (\<And>v s s'. m' s = (Returns v, s') \<Longrightarrow> f v s' = f' v s') \<Longrightarrow> bindM m f = bindM m' f'"
  by (auto simp: bindM_def fun_eq_iff split: prod.splits outcome.splits)

lemma mapM_cong [fundef_cong]:
  "xs = ys \<Longrightarrow> (\<And>x. x \<in> set ys \<Longrightarrow> f x = g x) \<Longrightarrow> mapM f xs = mapM g ys"
  by (induction ys arbitrary: xs) auto

record brain =
  variables :: "expr set"
  assumptions :: "expr set"
  inferences :: "expr set"
  penalty :: "expr \<rightharpoonup> int"
  expr_db :: "(expr \<times> expr) list"
  match_db :: "(expr option \<times> string option list) list"

record methods =
  m_simple :: "expr \<Rightarrow> expr M"
  m_simple_handler :: "string \<Rightarrow> expr list \<Rightarrow> expr M"

record env =
  complex_enclosure :: enclosure
  evaluate_alg_or_None :: "expr \<Rightarrow> complex option M"
  float_sqrt_round :: "int \<Rightarrow> int"
  unmodelled_handler :: "string \<Rightarrow> methods \<Rightarrow> brain \<Rightarrow> expr list \<Rightarrow> expr M"
  all_entries :: "expr list"
  entries_dict :: "(string option \<times> expr) list"

definition is_pred :: "env \<Rightarrow> brain \<Rightarrow> pred \<Rightarrow> expr \<Rightarrow> exc + tern" where
  "is_pred E b k x = prd (complex_enclosure E) (inferences b) k x"

definition try_finally :: "'a M \<Rightarrow> unit M \<Rightarrow> 'a M" where
  "try_finally body fin =
     (\<lambda>s. case body s of
            (Unfinished, s') \<Rightarrow> (Unfinished, s')
          | (r, s') \<Rightarrow> (case fin s' of
                          (Returns u, s'') \<Rightarrow> (r, s'')
                        | (Raises e, s'') \<Rightarrow> (Raises e, s'')
                        | (Unfinished, s'') \<Rightarrow> (Unfinished, s'')))"

definition alg_get_degree_limit :: "int M" where
  "alg_get_degree_limit = (\<lambda>s. (Returns (alg_degree_limit s), s))"

definition alg_get_bits_limit :: "int M" where
  "alg_get_bits_limit = (\<lambda>s. (Returns (alg_bits_limit s), s))"

definition alg_set_degree_limit :: "int \<Rightarrow> unit M" where
  "alg_set_degree_limit n = (\<lambda>s. (Returns (), s\<lparr>alg_degree_limit := n\<rparr>))"

definition alg_set_bits_limit :: "int \<Rightarrow> unit M" where
  "alg_set_bits_limit n = (\<lambda>s. (Returns (), s\<lparr>alg_bits_limit := n\<rparr>))"

text \<open>A computation that, when it finishes, leaves the two global limits as they were.\<close>

definition keeps_limits :: "'a M \<Rightarrow> bool" where
  "keeps_limits m =
     (\<forall>s r s'. m s = (r, s') \<and> r \<noteq> Unfinished \<longrightarrow>
        alg_degree_limit s' = alg_degree_limit s \<and> alg_bits_limit s' = alg_bits_limit s)"

definition differ :: "tern \<Rightarrow> tern \<Rightarrow> bool" where
  "differ aq bq = (aq \<noteq> None \<and> bq \<noteq> None \<and> aq \<noteq> bq)"

definition equal_numeric :: "env \<Rightarrow> expr \<Rightarrow> expr \<Rightarrow> exc + tern option" where
  "equal_numeric E a c =
     bindE (complex_enclosure E a)
       (\<lambda>val1. case val1 of
          None \<Rightarrow> Inr None
        | Some v1 \<Rightarrow>
            bindE (complex_enclosure E c)
              (\<lambda>val2. case val2 of
                 None \<Rightarrow> Inr None
               | Some v2 \<Rightarrow>
                   if \<not> acb_overlaps v1 v2 then Inr (Some no)
                   else bindE (complex_enclosure E (App Sub [a, c]))
                          (\<lambda>val3. case val3 of
                             None \<Rightarrow> Inl AttributeError
                           | Some v3 \<Rightarrow> Inr (if \<not> acb_contains_zero v3 then Some no else None))))"

definition equal_exact :: "env \<Rightarrow> expr \<Rightarrow> expr \<Rightarrow> tern option M" where
  "equal_exact E a c =
     bindM alg_get_degree_limit (\<lambda>orig_degree.
     bindM alg_get_bits_limit (\<lambda>orig_bits.
       try_finally
         (bindM (alg_set_degree_limit 200) (\<lambda>u.
          bindM (alg_set_bits_limit 100000) (\<lambda>u.
          bindM (evaluate_alg_or_None E a) (\<lambda>val1.
            case val1 of
              None \<Rightarrow> ret None
            | Some v1 \<Rightarrow>
                bindM (evaluate_alg_or_None E c) (\<lambda>val2.
                  case val2 of
                    None \<Rightarrow> ret None
                  | Some v2 \<Rightarrow> ret (Some (Some (v1 = v2))))))))
         (bindM (alg_set_degree_limit orig_degree) (\<lambda>u. alg_set_bits_limit orig_bits))))"

definition equal_domains :: "env \<Rightarrow> brain \<Rightarrow> expr \<Rightarrow> expr \<Rightarrow> exc + tern" where
  "equal_domains E b a c =
     bindE (is_pred E b IsRational a) (\<lambda>aq.
     bindE (is_pred E b IsRational c) (\<lambda>bq.
       if differ aq bq then Inr no
       else
         or_finally
           (if truthy aq \<and> truthy bq
            then bindE (is_pred E b IsInteger a) (\<lambda>aq.
                 bindE (is_pred E b IsInteger c) (\<lambda>bq.
                   Inr (if differ aq bq then Some no else None)))
            else Inr None)
        (bindE (is_pred E b IsComplex a) (\<lambda>aq.
         bindE (is_pred E b IsComplex c) (\<lambda>bq.
           if differ aq bq then Inr no
           else
             or_finally
               (if truthy aq \<and> truthy bq
                then bindE (is_pred E b IsReal a) (\<lambda>aq.
                     bindE (is_pred E b IsReal c) (\<lambda>bq.
                       Inr (if differ aq bq then Some no else None)))
                else Inr None)
            (bindE (is_pred E b IsInfinity a) (\<lambda>aq.
             bindE (is_pred E b IsInfinity c) (\<lambda>bq.
               if differ aq bq then Inr no else Inr unknown))))))))"

definition equal_tern :: "env \<Rightarrow> brain \<Rightarrow> expr \<Rightarrow> expr \<Rightarrow> tern M" where
  "equal_tern E b a c =
     (if a = c then ret yes
      else if is_integer_atom a \<and> is_integer_atom c then ret no
      else if Equal a c \<in> inferences b then ret yes
      else if Equal c a \<in> inferences b then ret yes
      else if NotEqual a c \<in> inferences b then ret no
      else if NotEqual c a \<in> inferences b then ret no
      else
        bindM (lift (equal_numeric E a c)) (\<lambda>r1.
          case r1 of
            Some v \<Rightarrow> ret v
          | None \<Rightarrow>
              bindM (equal_exact E a c) (\<lambda>r2.
                case r2 of
                  Some v \<Rightarrow> ret v
                | None \<Rightarrow> lift (equal_domains E b a c))))"

definition and_thenM :: "tern M \<Rightarrow> bool M \<Rightarrow> bool M" where
  "and_thenM m k = bindM m (\<lambda>v. if truthy v then k else ret False)"

definition or_elseM :: "tern M \<Rightarrow> bool M \<Rightarrow> bool M" where
  "or_elseM m k = bindM m (\<lambda>v. if truthy v then ret True else k)"

definition holdsM :: "tern M \<Rightarrow> bool M" where
  "holdsM m = bindM m (\<lambda>v. ret (truthy v))"

definition is_noM :: "tern M \<Rightarrow> bool M" where
  "is_noM m = bindM m (\<lambda>v. ret (v = no))"

definition and_alsoM :: "bool M \<Rightarrow> bool M \<Rightarrow> bool M" where
  "and_alsoM m k = bindM m (\<lambda>v. if v then k else ret False)"

definition return_ifM :: "bool M \<Rightarrow> 'a \<Rightarrow> 'a option M" where
  "return_ifM c v = bindM c (\<lambda>t. ret (if t then Some v else None))"

definition then_tryM :: "'a option M \<Rightarrow> 'a option M \<Rightarrow> 'a option M" where
  "then_tryM m k = bindM m (\<lambda>r. case r of Some v \<Rightarrow> ret (Some v) | None \<Rightarrow> k)"

definition or_finallyM :: "'a option M \<Rightarrow> 'a M \<Rightarrow> 'a M" where
  "or_finallyM m k = bindM m (\<lambda>r. case r of Some v \<Rightarrow> ret v | None \<Rightarrow> k)"

fun all_truthyM :: "('a \<Rightarrow> tern M) \<Rightarrow> 'a list \<Rightarrow> bool M" where
  "all_truthyM f [] = ret True"
| "all_truthyM f (x # xs) = bindM (f x) (\<lambda>v. if truthy v then all_truthyM f xs else ret False)"

lemma and_thenM_cong [fundef_cong]:
  "m = m' \<Longrightarrow> k = k' \<Longrightarrow> and_thenM m k = and_thenM m' k'"
  by simp

lemma or_elseM_cong [fundef_cong]:
  "m = m' \<Longrightarrow> k = k' \<Longrightarrow> or_elseM m k = or_elseM m' k'"
  by simp

lemma then_tryM_cong [fundef_cong]:
  "m = m' \<Longrightarrow> k = k' \<Longrightarrow> then_tryM m k = then_tryM m' k'"
  by simp

lemma or_finallyM_cong [fundef_cong]:
  "m = m' \<Longrightarrow> k = k' \<Longrightarrow> or_finallyM m k = or_finallyM m' k'"
  by simp

lemma all_truthyM_cong [fundef_cong]:
  assumes "xs = ys" and "\<And>x. x \<in> set ys \<Longrightarrow> f x = g x"
  shows "all_truthyM f xs = all_truthyM g ys"
proof -
  have "all_truthyM f ys = all_truthyM g ys"
    using assms(2) by (induction ys) (simp_all cong: if_cong)
  with assms(1) show ?thesis by simp
qed

text \<open>The order comparisons: simplify the relation and read off the literal.\<close>

definition read_literal :: "expr \<Rightarrow> tern" where
  "read_literal v = (if v = True_sym then yes else if v = False_sym then no else unknown)"

definition greater_tern :: "methods \<Rightarrow> expr \<Rightarrow> expr \<Rightarrow> tern M" where
  "greater_tern self a c = bindM (m_simple self (Greater a c)) (\<lambda>v. ret (read_literal v))"

definition less_tern :: "methods \<Rightarrow> expr \<Rightarrow> expr \<Rightarrow> tern M" where
  "less_tern self a c = bindM (m_simple self (Less a c)) (\<lambda>v. ret (read_literal v))"

definition greater_equal :: "methods \<Rightarrow> expr \<Rightarrow> expr \<Rightarrow> tern M" where
  "greater_equal self a c = bindM (m_simple self (GreaterEqual a c)) (\<lambda>v. ret (read_literal v))"

definition less_equal :: "methods \<Rightarrow> expr \<Rightarrow> expr \<Rightarrow> tern M" where
  "less_equal self a c = bindM (m_simple self (LessEqual a c)) (\<lambda>v. ret (read_literal v))"

definition is_extended_real :: "env \<Rightarrow> brain \<Rightarrow> expr \<Rightarrow> exc + tern" where
  "is_extended_real E b x =
     (if x = Infinity then Inr yes
      else if x = App Neg [Infinity] then Inr yes
      else bindE (is_pred E b IsReal x)
             (\<lambda>v. if truthy v then Inr yes
                   else or_finally
                          (if v = no then return_if (holds (is_pred E b IsComplex x)) no
                           else Inr None)
                          (Inr unknown)))"

function is_algebraic :: "methods \<Rightarrow> env \<Rightarrow> brain \<Rightarrow> expr \<Rightarrow> tern M" where
  "is_algebraic self E b x =
     or_finallyM (return_ifM (holdsM (lift (is_pred E b IsInteger x))) yes)
       (if Element x AlgebraicNumbers \<in> inferences b then ret yes
        else if NotElement x AlgebraicNumbers \<in> inferences b then ret no
        else if x = Pi \<or> x = ConstE then ret no
        else if x = ConstI \<or> x = GoldenRatio then ret yes
        else
          or_finallyM
            (if head_in x [Pos, Neg, Add, Sub, Mul]
             then return_ifM (all_truthyM (\<lambda>arg. is_algebraic self E b arg) (argl x)) yes
             else ret None)
         (or_finallyM
            (if head x = Some Div
             then (case argl x of
                     [p, q] \<Rightarrow> return_ifM (and_thenM (is_algebraic self E b p)
                                             (and_thenM (is_algebraic self E b q)
                                             (holdsM (lift (is_pred E b IsNotZero q))))) yes
                   | _ \<Rightarrow> raise ValueError)
             else ret None)
         (or_finallyM
            (if head x = Some Pow_sym
             then (case argl x of
                     [base, ex] \<Rightarrow>
                       then_tryM
                         (bindM (is_algebraic self E b base)
                            (\<lambda>ab. if truthy ab
                               then then_tryM
                                      (return_ifM
                                         (and_thenM (lift (is_pred E b IsRational ex))
                                            (or_elseM (lift (is_pred E b IsNotZero base))
                                               (holdsM (lift (is_pred E b IsNonnegative ex))))) yes)
                                      (return_ifM
                                         (and_thenM (is_algebraic self E b ex)
                                            (and_alsoM (is_noM (lift (is_pred E b IsRational ex)))
                                            (and_thenM (lift (is_pred E b IsNotZero base))
                                               (is_noM (equal_tern E b base (Integer 1)))))) no)
                               else ret None))
                         (return_ifM
                            (and_thenM (lift (is_pred E b IsComplex base))
                               (and_alsoM (is_noM (is_algebraic self E b base))
                               (and_thenM (lift (is_pred E b IsRational ex))
                                  (holdsM (lift (is_pred E b IsNotZero ex)))))) no)
                   | _ \<Rightarrow> raise ValueError)
             else ret None)
         (or_finallyM
            (if head x = Some Sqrt
             then (case argl x of
                     [v] \<Rightarrow> bindM (is_algebraic self E b v) (\<lambda>r. ret (Some r))
                   | _ \<Rightarrow> raise ValueError)
             else ret None)
         (or_finallyM
            (if head x = Some Exp
             then (case argl x of
                     [v] \<Rightarrow>
                       then_tryM
                         (return_ifM (and_thenM (is_algebraic self E b v)
                                        (holdsM (lift (is_pred E b IsNotZero v)))) no)
                         (return_ifM
                            (holdsM (bindM (m_simple self (App Div [v, App Mul [Pi, ConstI]]))
                                       (\<lambda>w. lift (is_pred E b IsRational w)))) yes)
                   | _ \<Rightarrow> raise ValueError)
             else ret None)
         (or_finallyM
            (if head_in x [Sin, Cos, Tan, Cot, Csc, Sec]
             then (case argl x of
                     [v] \<Rightarrow> return_ifM (and_thenM (is_algebraic self E b v)
                                         (holdsM (lift (is_pred E b IsNotZero v)))) no
                   | _ \<Rightarrow> raise ValueError)
             else ret None)
         (or_finallyM
            (if head x = Some Log
             then (case argl x of
                     [v] \<Rightarrow> return_ifM (and_thenM (is_algebraic self E b v)
                                         (is_noM (equal_tern E b v (Integer 1)))) no
                   | _ \<Rightarrow> raise ValueError)
             else ret None)
         (or_finallyM
            (return_ifM (lift (or_else (is_pred E b IsInfinity x) (Inr (x = Undefined)))) no)
            (ret unknown)))))))))"
  by pat_completeness auto
termination
  by (relation "measure (\<lambda>(self, E, b, x). size x)")
     (auto simp: size_argl size_argl1 size_argl2)

text \<open>\<open>True in check\<close> and \<open>all(c == False for c in check)\<close> on a list of results.\<close>

definition any_yes_all_no :: "tern list \<Rightarrow> tern" where
  "any_yes_all_no check =
     (if yes \<in> set check then yes
      else if (\<forall>c \<in> set check. c = no) then no
      else unknown)"

function element :: "methods \<Rightarrow> env \<Rightarrow> brain \<Rightarrow> expr \<Rightarrow> expr \<Rightarrow> tern M" where
  "element self E b x S =
     (if Element x S \<in> inferences b then ret yes
      else if NotElement x S \<in> inferences b then ret no
      else if S = CC then lift (is_pred E b IsComplex x)
      else if S = RR then lift (is_pred E b IsReal x)
      else if S = QQ then lift (is_pred E b IsRational x)
      else if S = ZZ then lift (is_pred E b IsInteger x)
      else if S = HH then
        bindM (lift (is_pred E b IsComplex x))
          (\<lambda>c1. if \<not> truthy c1 then ret c1 else lift (is_pred E b IsPositive (App Im_sym [x])))
      else if S = PP then
        bindM (lift (is_pred E b IsInteger x))
          (\<lambda>z. if \<not> truthy z then ret z
                else if is_integer_atom x \<and> int_of x \<le> 20
                then ret (Some (int_of x \<in> set [2, 3, 5, 7, 11, 13, 17, 19]))
                else ret unknown)
      else if S = AlgebraicNumbers then is_algebraic self E b x
      else if head S = Some ZZGreaterEqual then
        (case argl S of
           [a] \<Rightarrow> bindM (lift (is_pred E b IsInteger x))
                    (\<lambda>v. if \<not> truthy v then ret v else less_equal self a x)
         | _ \<Rightarrow> raise ValueError)
      else if head S = Some ZZLessEqual then
        (case argl S of
           [c] \<Rightarrow> bindM (lift (is_pred E b IsInteger x))
                    (\<lambda>v. if \<not> truthy v then ret v else less_equal self x c)
         | _ \<Rightarrow> raise ValueError)
      else if head S = Some Range_sym then
        (case argl S of
           [a, c] \<Rightarrow> bindM (lift (is_pred E b IsInteger x))
                       (\<lambda>v. if \<not> truthy v then ret v
                             else bindM (less_equal self a x)
                                    (\<lambda>v. if \<not> truthy v then ret v else less_equal self x c))
         | _ \<Rightarrow> raise ValueError)
      else if head_in S [ClosedInterval, OpenInterval, ClosedOpenInterval, OpenClosedInterval] then
        (case argl S of
           [a, c] \<Rightarrow>
             bindM (lift (is_extended_real E b a))
               (\<lambda>v. if \<not> truthy v then ret unknown else
             bindM (lift (is_extended_real E b c))
               (\<lambda>v. if \<not> truthy v then ret unknown else
             bindM (lift (is_extended_real E b x))
               (\<lambda>v. if \<not> truthy v then ret v
                     else if head S \<noteq> Some ClosedInterval \<and> a = c then ret no
                     else
                       bindM (if head S = Some ClosedInterval \<or> head S = Some ClosedOpenInterval
                              then less_equal self a x else less_tern self a x)
                         (\<lambda>v. if \<not> truthy v then ret v
                               else if head S = Some ClosedInterval \<or> head S = Some OpenClosedInterval
                               then less_equal self x c
                               else less_tern self x c))))
         | _ \<Rightarrow> raise ValueError)
      else if head S = Some Set_sym then
        bindM (mapM (\<lambda>y. equal_tern E b x y) (argl S)) (\<lambda>check. ret (any_yes_all_no check))
      else if head S = Some Union_sym then
        (if length (argl S) = 0 then ret no
         else bindM (mapM (\<lambda>T. element self E b x T) (argl S))
                (\<lambda>check. ret (any_yes_all_no check)))
      else if head S = Some Intersection then
        (if \<not> length (argl S) \<ge> 1 then raise AssertionError
         else bindM (mapM (\<lambda>T. element self E b x T) (argl S))
                (\<lambda>check. ret (if (\<forall>c \<in> set check. c = yes) then yes
                                else if no \<in> set check then no
                                else unknown)))
      else if head S = Some SetMinus then
        (if \<not> length (argl S) = 2 then raise AssertionError
         else (case argl S of
                 [T, U] \<Rightarrow>
                   bindM (element self E b x T)
                     (\<lambda>v1. if v1 = no then ret no
                            else bindM (element self E b x U)
                                   (\<lambda>v2. if v1 = yes \<and> v2 = no then ret yes
                                          else if v1 = yes \<and> v2 = yes then ret no
                                          else ret unknown))
               | _ \<Rightarrow> raise ValueError))
      else ret unknown)"
  by pat_completeness auto
termination
  by (relation "measure (\<lambda>(self, E, b, x, S). size S)")
     (auto simp: size_argl size_argl1 size_argl2)

text \<open>The float literal \<open>1e100\<close>, as the integer it denotes exactly.\<close>

definition float_1e100 :: int where
  "float_1e100 = 10000000000000000159028911097599180468360808563945281389781327557747838772170381060813469985856815104"

definition modelled_handlers :: "string list" where
  "modelled_handlers =
     [''Not'', ''And'', ''Or'', ''Implies'', ''Element'', ''NotElement'', ''Pos'',
      ''Parentheses'', ''Brackets'', ''Braces'', ''Neg'', ''Add'', ''Sqrt'', ''Sum'']"

definition unmodelled_handlers :: "string list" where
  "unmodelled_handlers =
     [''Equal'', ''NotEqual'', ''LessEqual'', ''Less'', ''GreaterEqual'', ''Greater'',
      ''Exp_two_pi_i_k_n'', ''Sub'', ''Mul'', ''Div'', ''Pow'', ''Exp'', ''Sin'',
      ''Cos'', ''Abs'', ''Re'', ''Im'', ''Arg'', ''Floor'', ''Ceil'', ''DirichletCharacter'',
      ''Zeros'', ''Det'', ''Spectrum'', ''SingularValues'', ''Where'', ''RiemannZeta'',
      ''Cases'', ''AiryAi'', ''AiryBi'', ''Erf'', ''Erfc'', ''HurwitzZeta'',
      ''DigammaFunction'', ''Gamma'', ''Factorial'', ''RisingFactorial'', ''hypergeometric'',
      ''hypergeometric_2'', ''Hypergeometric0F1'', ''Hypergeometric0F1Regularized'',
      ''Hypergeometric1F1'', ''Hypergeometric1F1Regularized'', ''Hypergeometric2F1'',
      ''Hypergeometric2F1Regularized'', ''HypergeometricPFQ'',
      ''HypergeometricPFQRegularized'', ''ModularJ'', ''DedekindEtaEpsilon'',
      ''ModularLambda'', ''DedekindEta'', ''EllipticK'', ''EllipticE'']"

text \<open>\<open>hasattr(self, "simple_" + s)\<close>: the methods above, and the attribute
  \<open>simple_cache\<close>.\<close>

definition has_handler :: "string \<Rightarrow> bool" where
  "has_handler s = (s \<in> set modelled_handlers \<or> s \<in> set unmodelled_handlers \<or> s = ''cache'')"

definition simple_Not :: "methods \<Rightarrow> expr list \<Rightarrow> expr M" where
  "simple_Not self xs =
     (case xs of
        [x] \<Rightarrow>
          bindM (m_simple self x)
            (\<lambda>x. if x = True_sym then ret False_sym
                  else if x = False_sym then ret True_sym
                  else if head x = Some (Symbol ''NotEqual'') \<and> length (argl x) = 2
                  then ret (App (Symbol ''Equal'') (argl x))
                  else if head x = Some (Symbol ''Equal'') \<and> length (argl x) = 2
                  then ret (App (Symbol ''NotEqual'') (argl x))
                  else if head x = Some (Symbol ''NotElement'') \<and> length (argl x) = 2
                  then ret (App (Symbol ''Element'') (argl x))
                  else if head x = Some (Symbol ''Element'') \<and> length (argl x) = 2
                  then ret (App (Symbol ''NotElement'') (argl x))
                  else ret (App Not_sym [x]))
      | _ \<Rightarrow> raise TypeError)"

definition simple_And :: "methods \<Rightarrow> expr list \<Rightarrow> expr M" where
  "simple_And self xs =
     bindM (mapM (m_simple self) xs)
       (\<lambda>xs. if False_sym \<in> set xs then ret False_sym
              else (let xs = filter (\<lambda>arg. arg \<noteq> True_sym) xs
                    in case xs of
                         [] \<Rightarrow> ret True_sym
                       | [x] \<Rightarrow> ret x
                       | _ \<Rightarrow> ret (App And xs)))"

definition simple_Or :: "methods \<Rightarrow> expr list \<Rightarrow> expr M" where
  "simple_Or self xs =
     bindM (mapM (m_simple self) xs)
       (\<lambda>xs. if True_sym \<in> set xs then ret True_sym
              else (let xs = filter (\<lambda>arg. arg \<noteq> False_sym) xs
                    in case xs of
                         [] \<Rightarrow> ret False_sym
                       | [x] \<Rightarrow> ret x
                       | _ \<Rightarrow> ret (App Or xs)))"

definition simple_Implies :: "methods \<Rightarrow> expr list \<Rightarrow> expr M" where
  "simple_Implies self xs =
     bindM (mapM (m_simple self) xs)
       (\<lambda>xs. case xs of
                [P, Q] \<Rightarrow> if P = False_sym then ret True_sym
                           else if P = True_sym then ret Q
                           else ret (App Implies xs)
              | _ \<Rightarrow> raise AssertionError)"

definition simple_Element :: "methods \<Rightarrow> env \<Rightarrow> brain \<Rightarrow> expr list \<Rightarrow> expr M" where
  "simple_Element self E b xs =
     bindM (mapM (m_simple self) xs)
       (\<lambda>xs. case xs of
                [x, S] \<Rightarrow>
                  bindM (element self E b x S)
                    (\<lambda>v. if v = yes then ret True_sym
                          else if v = no then ret False_sym
                          else ret (App (Symbol ''Element'') xs))
              | _ \<Rightarrow> raise AssertionError)"

definition simple_NotElement :: "methods \<Rightarrow> env \<Rightarrow> brain \<Rightarrow> expr list \<Rightarrow> expr M" where
  "simple_NotElement self E b xs =
     bindM (mapM (m_simple self) xs)
       (\<lambda>xs. case xs of
                [x, S] \<Rightarrow>
                  bindM (element self E b x S)
                    (\<lambda>v. if v = yes then ret False_sym
                          else if v = no then ret True_sym
                          else ret (App (Symbol ''NotElement'') xs))
              | _ \<Rightarrow> raise AssertionError)"

text \<open>\<open>simple_Pos\<close>, \<open>simple_Parentheses\<close>, \<open>simple_Brackets\<close>, \<open>simple_Braces\<close>.\<close>

definition simple_Pos :: "methods \<Rightarrow> expr list \<Rightarrow> expr M" where
  "simple_Pos self xs = (case xs of [x] \<Rightarrow> m_simple self x | _ \<Rightarrow> raise TypeError)"

definition simple_Neg :: "methods \<Rightarrow> expr list \<Rightarrow> expr M" where
  "simple_Neg self xs =
     (case xs of
        [x] \<Rightarrow>
          bindM (m_simple self x)
            (\<lambda>x. if head x = Some Neg
                  then (case argl x of [v] \<Rightarrow> ret v | _ \<Rightarrow> raise ValueError)
                  else if head x = Some Sub
                  then (case argl x of [a, c] \<Rightarrow> ret (App Sub [c, a]) | _ \<Rightarrow> raise ValueError)
                  else if is_integer_atom x then ret (Integer (- int_of x))
                  else ret (App Neg [x]))
      | _ \<Rightarrow> raise TypeError)"

text \<open>
  \<open>simple_Add\<close> up to the test \<open>all(self.is_complex(x) for x in terms)\<close>; the
  canonical sum that follows when every term is known to be complex is left to
  \<open>unmodelled_handler\<close>, which receives the simplified terms.
\<close>

definition simple_Add :: "methods \<Rightarrow> env \<Rightarrow> brain \<Rightarrow> expr list \<Rightarrow> expr M" where
  "simple_Add self E b terms =
     (case terms of
        [] \<Rightarrow> ret (Integer 0)
      | [t] \<Rightarrow> m_simple self t
      | _ \<Rightarrow>
          bindM (mapM (m_simple self) terms) (\<lambda>terms.
          bindM (lift (all_truthy (\<lambda>x. is_pred E b IsComplex x) terms)) (\<lambda>ok.
            if \<not> ok then ret (App Add terms)
            else unmodelled_handler E ''Add'' self b terms)))"

definition sqrt_of_integer :: "env \<Rightarrow> expr \<Rightarrow> expr option" where
  "sqrt_of_integer E x =
     (if is_integer_atom x
      then (let v = int_of x; real = (v \<ge> 0); v = \<bar>v\<bar>
            in if v < float_1e100
               then (let r = float_sqrt_round E v
                     in if r * r = v
                        then Some (if real then Integer r else App Mul [Integer r, ConstI])
                        else None)
               else None)
      else None)"

definition simple_Sqrt :: "methods \<Rightarrow> env \<Rightarrow> brain \<Rightarrow> expr list \<Rightarrow> expr M" where
  "simple_Sqrt self E b xs =
     (case xs of
        [x] \<Rightarrow>
          bindM (m_simple self x)
            (\<lambda>x. if x \<in> set [Integer 0, Integer 1, Infinity, UnsignedInfinity, Undefined] then ret x
                  else if x = Integer (- 1) then ret ConstI
                  else if x = App Neg [Infinity] then ret (App Mul [ConstI, Infinity])
                  else
                    or_finallyM (ret (sqrt_of_integer E x))
                   (or_finallyM
                      (bindM (lift (is_pred E b IsNegative x))
                         (\<lambda>n. if truthy n
                               then bindM (m_simple_handler self ''Sqrt'' [App Neg [x]])
                                      (\<lambda>r. ret (Some (App Mul [r, ConstI])))
                               else ret None))
                   (or_finallyM
                      (if head x = Some Pow_sym
                       then (case argl x of
                               [base, ex] \<Rightarrow>
                                 if is_integer_atom ex
                                 then bindM (and_alsoM (ret (int_of ex mod 2 = 0 \<and> int_of ex > 0))
                                              (and_thenM (lift (is_pred E b IsReal base))
                                                 (holdsM (lift (is_pred E b IsNonnegative base)))))
                                        (\<lambda>ok. ret (if ok
                                                    then Some (if int_of ex = 2 then base
                                                               else App Pow_sym [base, Integer (int_of ex div 2)])
                                                    else None))
                                 else ret None
                             | _ \<Rightarrow> raise ValueError)
                       else ret None)
                      (ret (App Sqrt [x])))))
      | _ \<Rightarrow> raise TypeError)"

fun sum_cond_terms :: "methods \<Rightarrow> expr \<Rightarrow> expr \<Rightarrow> expr \<Rightarrow> int list \<Rightarrow> expr list option M" where
  "sum_cond_terms self ex var cond [] = ret (Some [])"
| "sum_cond_terms self ex var cond (i # is) =
     bindM (if cond = var then raise AttributeError
            else m_simple self (replace [(var, Integer i)] cond))
       (\<lambda>include.
          if include = True_sym
          then bindM (sum_cond_terms self ex var cond is)
                 (\<lambda>r. ret (map_option (\<lambda>ts. replace [(var, Integer i)] ex # ts) r))
          else if include = False_sym then sum_cond_terms self ex var cond is
          else ret None)"

definition sum_unroll :: "methods \<Rightarrow> expr list \<Rightarrow> expr \<Rightarrow> expr \<Rightarrow> expr \<Rightarrow> expr M" where
  "sum_unroll self xs ex forargs cond =
     (if head forargs = Some For \<and> length (argl forargs) = 3
      then (case argl forargs of
              [var, a, c] \<Rightarrow>
                bindM (m_simple self a) (\<lambda>a.
                bindM (m_simple self c) (\<lambda>c.
                  if is_integer_atom a \<and> is_integer_atom c
                  then (let a = int_of a; c = int_of c
                        in if c - a < 100
                           then bindM (if cond = True_sym
                                       then ret (Some (map (\<lambda>i. replace [(var, Integer i)] ex) [a..c]))
                                       else sum_cond_terms self ex var cond [a..c])
                                  (\<lambda>terms. case terms of
                                              Some ts \<Rightarrow> m_simple self (App Add ts)
                                            | None \<Rightarrow> ret (App Sum_sym xs))
                           else ret (App Sum_sym xs))
                  else ret (App Sum_sym xs)))
            | _ \<Rightarrow> ret (App Sum_sym xs))
      else ret (App Sum_sym xs))"

definition simple_Sum :: "methods \<Rightarrow> expr list \<Rightarrow> expr M" where
  "simple_Sum self xs =
     (case xs of
        [ex, forargs] \<Rightarrow> sum_unroll self xs ex forargs True_sym
      | [ex, forargs, cond] \<Rightarrow> sum_unroll self xs ex forargs cond
      | _ \<Rightarrow> ret (App Sum_sym xs))"

text \<open>\<open>getattr(self, "simple_" + s)(*args)\<close>.\<close>

definition call_handler :: "methods \<Rightarrow> env \<Rightarrow> brain \<Rightarrow> string \<Rightarrow> expr list \<Rightarrow> expr M" where
  "call_handler self E b name xs =
     (if name = ''Not'' then simple_Not self xs
      else if name = ''And'' then simple_And self xs
      else if name = ''Or'' then simple_Or self xs
      else if name = ''Implies'' then simple_Implies self xs
      else if name = ''Element'' then simple_Element self E b xs
      else if name = ''NotElement'' then simple_NotElement self E b xs
      else if name \<in> set [''Pos'', ''Parentheses'', ''Brackets'', ''Braces''] then simple_Pos self xs
      else if name = ''Neg'' then simple_Neg self xs
      else if name = ''Add'' then simple_Add self E b xs
      else if name = ''Sqrt'' then simple_Sqrt self E b xs
      else if name = ''Sum'' then simple_Sum self xs
      else if name = ''cache'' then raise TypeError
      else if name \<in> set unmodelled_handlers then unmodelled_handler E name self b xs
      else raise AttributeError)"

definition cache_store :: "expr \<Rightarrow> expr option \<Rightarrow> unit M" where
  "cache_store k v = (\<lambda>s. (Returns (), s\<lparr>simple_cache := (simple_cache s)(k \<mapsto> v)\<rparr>))"

definition cache_lookup :: "expr \<Rightarrow> expr option option M" where
  "cache_lookup k = (\<lambda>s. (Returns (simple_cache s k), s))"

text \<open>The part of \<open>Brain.simple\<close> between the two cache writes.\<close>

definition dispatch :: "methods \<Rightarrow> expr \<Rightarrow> expr M" where
  "dispatch self e =
     (case head e of
        Some (Symbol s) \<Rightarrow>
          if has_handler s then m_simple_handler self s (argl e)
          else bindM (mapM (m_simple self) (argl e)) (\<lambda>xs. ret (App (Symbol s) xs))
      | _ \<Rightarrow> ret e)"

definition Brain_simple :: "methods \<Rightarrow> brain \<Rightarrow> expr \<Rightarrow> expr M" where
  "Brain_simple self b e =
     (if e \<in> inferences b then ret True_sym
      else if is_atom e then ret e
      else bindM (cache_lookup e)
             (\<lambda>hit. case hit of
                      Some v \<Rightarrow> (case v of None \<Rightarrow> ret e | Some r \<Rightarrow> ret r)
                    | None \<Rightarrow>
                        bindM (cache_store e None) (\<lambda>u.
                        bindM (dispatch self e) (\<lambda>r.
                        bindM (cache_store e (Some r)) (\<lambda>u. ret r)))))"

text \<open>
  \<open>self\<close> after \<open>n\<close> nested calls are still allowed: every call of \<open>self.simple\<close> or of
  a handler takes one unit; with none left the call does not return.
\<close>

primrec Brain_methods :: "env \<Rightarrow> brain \<Rightarrow> nat \<Rightarrow> methods" where
  "Brain_methods E b 0 =
     \<lparr>m_simple = (\<lambda>e. unfinished), m_simple_handler = (\<lambda>name xs. unfinished)\<rparr>"
| "Brain_methods E b (Suc n) =
     \<lparr>m_simple = Brain_simple (Brain_methods E b n) b,
      m_simple_handler = call_handler (Brain_methods E b n) E b\<rparr>"

subsection \<open>FungrimBrain\<close>

fun match_recursive :: "expr list \<Rightarrow> expr \<Rightarrow> expr \<Rightarrow> (expr \<times> expr) list \<Rightarrow> (expr \<times> expr) list option"
  and match_args :: "expr list \<Rightarrow> expr list \<Rightarrow> expr list \<Rightarrow> (expr \<times> expr) list \<Rightarrow> (expr \<times> expr) list option"
where
  "match_recursive free_variables e (App rf rs) match_values =
     (if App rf rs \<in> set free_variables
      then (case map_of match_values (App rf rs) of
              Some v \<Rightarrow> if e \<noteq> v then None else Some match_values
            | None \<Rightarrow> Some (match_values @ [(App rf rs, e)]))
      else if e = App rf rs then Some match_values
      else (case e of
              App ef es \<Rightarrow>
                if ef \<noteq> rf \<or> length es \<noteq> length rs then None
                else match_args free_variables es rs match_values
            | _ \<Rightarrow> None))"
| "match_recursive free_variables e r match_values =
     (if r \<in> set free_variables
      then (case map_of match_values r of
              Some v \<Rightarrow> if e \<noteq> v then None else Some match_values
            | None \<Rightarrow> Some (match_values @ [(r, e)]))
      else if e = r then Some match_values
      else None)"
| "match_args free_variables (a # as) (r # rs) match_values =
     (case match_recursive free_variables a r match_values of
        None \<Rightarrow> None
      | Some mv \<Rightarrow> match_args free_variables as rs mv)"
| "match_args free_variables as rs match_values = Some match_values"










subsection \<open>Session construction\<close>

fun head_args_flattened :: "expr \<Rightarrow> expr \<Rightarrow> expr list" where
  "head_args_flattened h (App f xs) =
     (if f = h then concat (map (head_args_flattened h) xs) else [App f xs])"
| "head_args_flattened h e = [e]"

definition bindO :: "'a outcome \<Rightarrow> ('a \<Rightarrow> 'b outcome) \<Rightarrow> 'b outcome" where
  "bindO m f = (case m of Returns v \<Rightarrow> f v | Raises e \<Rightarrow> Raises e | Unfinished \<Rightarrow> Unfinished)"


fun foldO :: "('a \<Rightarrow> 'b \<Rightarrow> 'b outcome) \<Rightarrow> 'a list \<Rightarrow> 'b \<Rightarrow> 'b outcome" where
  "foldO f [] acc = Returns acc"
| "foldO f (x # xs) acc = bindO (f x acc) (foldO f xs)"

lemma foldO_cong [fundef_cong]:
  assumes "xs = ys" and "\<And>x acc. x \<in> set ys \<Longrightarrow> f x acc = g x acc" and "a = c"
  shows "foldO f xs a = foldO g ys c"
proof -
  have "foldO f ys c = foldO g ys c"
    using assms(2)
  proof (induction ys arbitrary: c)
    case Nil
    show ?case by simp
  next
    case (Cons y ys)
    have "foldO f ys = foldO g ys"
      using Cons by (simp add: fun_eq_iff)
    with Cons.prems show ?case by simp
  qed
  with assms(1,3) show ?thesis by simp
qed

lemma size_head_args_flattened:
  "e' \<in> set (head_args_flattened h e) \<Longrightarrow> size e' \<le> size e"
proof (induction h e rule: head_args_flattened.induct)
  case (1 h f xs)
  show ?case
  proof (cases "f = h")
    case True
    with "1.prems" obtain x where x: "x \<in> set xs" "e' \<in> set (head_args_flattened h x)"
      by auto
    with "1.IH" True have "size e' \<le> size x" by simp
    also have "size x \<le> size_list size xs" using x(1) by (rule size_member_le)
    finally show ?thesis by simp
  next
    case False
    with "1.prems" show ?thesis by simp
  qed
qed simp_all

lemma size_head_args_flattened_strict:
  "head e = Some h \<Longrightarrow> e' \<in> set (head_args_flattened h e) \<Longrightarrow> size e' < size e"
proof (cases e)
  case (App f xs)
  assume "head e = Some h" and mem: "e' \<in> set (head_args_flattened h e)"
  with App have "f = h" by simp
  with mem App obtain x where x: "x \<in> set xs" "e' \<in> set (head_args_flattened h x)"
    by auto
  have "size e' \<le> size x" using x(2) by (rule size_head_args_flattened)
  also have "size x \<le> size_list size xs" using x(1) by (rule size_member_le)
  finally show ?thesis using App by simp
qed simp_all

text \<open>The loop \<open>for v in (-1, 0, 1)\<close> of the four interval branches of \<open>infer_domain\<close>.\<close>

fun interval_bound_facts ::
  "(expr \<Rightarrow> expr outcome) \<Rightarrow> expr \<Rightarrow> expr \<Rightarrow> expr \<Rightarrow> bool \<Rightarrow> bool \<Rightarrow> int list \<Rightarrow> expr set \<Rightarrow> expr set outcome"
where
  "interval_bound_facts es a c x lo_open hi_open [] facts = Returns facts"
| "interval_bound_facts es a c x lo_open hi_open (v # vs) facts =
     bindO (es (GreaterEqual a (Integer v))) (\<lambda>r1.
       let facts = (if r1 = True_sym
                    then facts \<union> (if lo_open then {Greater x (Integer v), Less (Integer v) x}
                                  else {GreaterEqual x (Integer v), LessEqual (Integer v) x})
                    else facts)
       in bindO (es (LessEqual c (Integer v))) (\<lambda>r2.
            let facts = (if r2 = True_sym
                         then facts \<union> (if hi_open then {Less x (Integer v), Greater (Integer v) x}
                                       else {LessEqual x (Integer v), GreaterEqual (Integer v) x})
                         else facts)
            in interval_bound_facts es a c x lo_open hi_open vs facts))"

function infer_domain :: "(expr \<Rightarrow> expr outcome) \<Rightarrow> expr set \<Rightarrow> expr \<Rightarrow> expr \<Rightarrow> expr set outcome" where
  "infer_domain es facts x dm =
     (if head dm = Some Intersection
      then foldO (\<lambda>dm2 facts. infer_domain es facts x dm2)
             (head_args_flattened Intersection dm) facts
      else
        (let facts = insert (Element x dm) facts;
             facts = (case argl dm of
                        [y] \<Rightarrow> if head dm = Some Set_sym then insert (Equal x y) facts else facts
                      | _ \<Rightarrow> facts)
         in if dm = RR then Returns (facts \<union> {Element x CC})
            else if dm = QQ then
              Returns (facts \<union> {Element x RR, Element x CC, Element x AlgebraicNumbers})
            else if dm = ZZ then
              Returns (facts \<union> {Element x QQ, Element x RR, Element x CC,
                                 Element x AlgebraicNumbers})
            else if dm = HH then Returns (facts \<union> {Element x CC})
            else if dm = PP then
              Returns (facts \<union> {Element x (App ZZGreaterEqual [Integer 2]),
                                 Element x (App ClosedOpenInterval [Integer 2, Infinity]),
                                 Element x ZZ, Element x QQ, Element x RR, Element x CC,
                                 Element x AlgebraicNumbers})
            else if dm = AlgebraicNumbers then Returns (facts \<union> {Element x CC})
            else if head_in dm [ZZGreaterEqual, ZZLessEqual, Range_sym] then
              Returns (facts \<union> {Element x ZZ, Element x QQ, Element x RR, Element x CC,
                                 Element x AlgebraicNumbers})
            else if head dm = Some OpenInterval then
              (case argl dm of
                 [a, c] \<Rightarrow>
                   interval_bound_facts es a c x True True [- 1, 0, 1]
                     (facts \<union> {Element x RR, Element x CC}
                            \<union> {Less a x, Less x c, Greater x a, Greater c x})
               | _ \<Rightarrow> Raises ValueError)
            else if head dm = Some ClosedInterval then
              (case argl dm of
                 [a, c] \<Rightarrow>
                   bindO (es (Element a RR)) (\<lambda>ra.
                   bindO (if ra = True_sym then es (Element c RR) else Returns False_sym) (\<lambda>rc.
                     interval_bound_facts es a c x False False [- 1, 0, 1]
                       (facts \<union> {LessEqual a x, LessEqual x c, GreaterEqual x a, GreaterEqual c x}
                              \<union> (if ra = True_sym \<and> rc = True_sym
                                  then {Element x RR, Element x CC} else {}))))
               | _ \<Rightarrow> Raises ValueError)
            else if head dm = Some OpenClosedInterval then
              (case argl dm of
                 [a, c] \<Rightarrow>
                   bindO (es (Element c RR)) (\<lambda>rc.
                     interval_bound_facts es a c x True False [- 1, 0, 1]
                       (facts \<union> {Less a x, LessEqual x c, Greater x a, GreaterEqual c x}
                              \<union> (if rc = True_sym then {Element x RR, Element x CC} else {})))
               | _ \<Rightarrow> Raises ValueError)
            else if head dm = Some ClosedOpenInterval then
              (case argl dm of
                 [a, c] \<Rightarrow>
                   bindO (es (Element a RR)) (\<lambda>ra.
                     interval_bound_facts es a c x False True [- 1, 0, 1]
                       (facts \<union> {LessEqual a x, Less x c, GreaterEqual x a, Greater c x}
                              \<union> (if ra = True_sym then {Element x RR, Element x CC} else {})))
               | _ \<Rightarrow> Raises ValueError)
            else Returns facts))"
  by pat_completeness auto
termination
  by (relation "measure (\<lambda>(es, facts, x, dm). size dm)")
     (auto simp: size_head_args_flattened_strict)

function infer_not_domain :: "expr set \<Rightarrow> expr \<Rightarrow> expr \<Rightarrow> expr set" where
  "infer_not_domain facts x dm =
     (if head dm = Some Union_sym
      then fold (\<lambda>dm2 facts. infer_not_domain facts x dm2)
             (head_args_flattened Union_sym dm) facts
      else
        (let facts = insert (NotElement x dm) facts;
             facts = (case argl dm of
                        [y] \<Rightarrow> if head dm = Some Set_sym then insert (NotEqual x y) facts else facts
                      | _ \<Rightarrow> facts)
         in if dm = CC then
              facts \<union> {NotElement x RR, NotElement x QQ, NotElement x ZZ, NotElement x PP,
                       NotElement x HH, NotElement x AlgebraicNumbers}
            else if dm = RR then facts \<union> {NotElement x QQ, NotElement x ZZ, NotElement x PP}
            else if dm = QQ then facts \<union> {NotElement x ZZ, NotElement x PP}
            else if dm = ZZ then facts \<union> {NotElement x PP}
            else if dm = AlgebraicNumbers then facts \<union> {NotElement x QQ, NotElement x ZZ}
            else facts))"
  by pat_completeness auto
termination
  by (relation "measure (\<lambda>(facts, x, dm). size dm)")
     (auto simp: size_head_args_flattened_strict)

text \<open>\<open>Brain.infer\<close>.\<close>

definition infer :: "(expr \<Rightarrow> expr outcome) \<Rightarrow> expr \<Rightarrow> expr set \<Rightarrow> expr set outcome" where
  "infer es thm facts =
     (let facts = insert thm facts
      in if head thm = Some (Symbol ''Element'')
         then (case argl thm of
                 [x, dm] \<Rightarrow>
                   bindO (infer_domain es facts x dm) (\<lambda>facts.
                     if head dm = Some SetMinus
                     then (case argl dm of
                             [inset, outset] \<Rightarrow>
                               bindO (infer_domain es facts x inset) (\<lambda>facts.
                                 Returns (infer_not_domain facts x outset))
                           | _ \<Rightarrow> Raises ValueError)
                     else Returns facts)
               | _ \<Rightarrow> Raises ValueError)
         else Returns facts)"

text \<open>
  \<open>Brain.__init__(variables, assumptions, penalty)\<close>; \<open>es\<close> is \<open>Expr.simple()\<close>, the
  simplifier of a fresh session without hypotheses that \<open>infer_domain\<close> calls on
  interval endpoints.
\<close>

definition Brain_init ::
  "(expr \<Rightarrow> expr outcome) \<Rightarrow> expr list \<Rightarrow> expr option \<Rightarrow> (expr \<rightharpoonup> int) \<Rightarrow> brain outcome"
where
  "Brain_init es vars asm pen =
     (let asms = (case asm of None \<Rightarrow> [] | Some a \<Rightarrow> head_args_flattened And a)
      in bindO (foldO (infer es) asms {})
           (\<lambda>facts. Returns \<lparr>variables = set vars, assumptions = set asms,
                              inferences = facts, penalty = pen,
                              expr_db = [], match_db = []\<rparr>))"

definition fresh_state :: "int \<Rightarrow> int \<Rightarrow> state" where
  "fresh_state degree bits =
     \<lparr>simple_cache = Map.empty, alg_degree_limit = degree, alg_bits_limit = bits\<rparr>"







text \<open>
  An environment for the examples: the numeric oracle and the algebraic backend answer
  \<open>None\<close> (no enclosure, not representable), \<open>int(round(4 ** 0.5))\<close> is 2, there is
  no formula corpus, and the handlers that are not modelled do not return.
\<close>

definition E0 :: env where
  "E0 = \<lparr>complex_enclosure = (\<lambda>x. Inr None),
          evaluate_alg_or_None = (\<lambda>x. ret None),
          float_sqrt_round = (\<lambda>v. if v = 4 then 2 else 0),
          unmodelled_handler = (\<lambda>name self b xs. unfinished),
          all_entries = [],
          entries_dict = []\<rparr>"

subsection \<open>Plain terms\<close>






text \<open>\<open>Brain()\<close>: the session without variables, hypotheses or penalties.\<close>

definition empty_brain :: brain where
  "empty_brain = \<lparr>variables = {}, assumptions = {}, inferences = {}, penalty = Map.empty,
                   expr_db = [], match_db = []\<rparr>"



declare prd.simps [simp del]
declare is_algebraic.simps [simp del]
declare element.simps [simp del]
declare infer_domain.simps [simp del]
declare infer_not_domain.simps [simp del]
declare Brain_methods.simps [simp del]

section \<open>Properties of the term model\<close>

lemma Expr_call_Nil: "Expr_call [] = Inl AssertionError"
  by (simp add: Expr_call_def)

lemma Expr_call_Cons: "Expr_call (f # xs) = Inr (App f xs)"
  by (simp add: Expr_call_def)

text \<open>
  C9 as stated fails: a tuple that holds only the head passes the assertion
  \<open>len(self._args) >= 1\<close>, so \<open>Expr(call=(f,))\<close> and \<open>f()\<close> build the application of
  \<open>f\<close> to no arguments.
\<close>

theorem C9_zero_arity_counterexample:
  "Expr_call [Symbol ''f''] = Inr (App (Symbol ''f'') [])
   \<and> call_expr (Symbol ''f'') [] = Inr (App (Symbol ''f'') [])
   \<and> args (App (Symbol ''f'') []) = Some []"
  by (simp add: Expr_call_def call_expr_def)

text \<open>
  C9 as amended: the constructor faults with an assertion error exactly when the call
  tuple is empty (no head at all); calling an expression with any argument list, the
  empty one included, returns the application with that head and those arguments.
\<close>

theorem C9_empty_call_tuple_faults:
  "(Expr_call call = Inl AssertionError) = (call = [])
   \<and> call_expr f xs = Inr (App f xs)
   \<and> head (App f xs) = Some f \<and> args (App f xs) = Some xs"
  by (cases call) (simp_all add: Expr_call_def call_expr_def)

text \<open>
  C10: on every atom (symbol, integer or text) \<open>head()\<close> and \<open>args()\<close> return
  \<open>None\<close>; neither raises.
\<close>

theorem C10_atom_head_args_None:
  "is_atom e \<Longrightarrow> head e = None \<and> args e = None"
  by (cases e) simp_all

theorem C10_atom_head_args_None_witness:
  "is_atom (Symbol ''x'') \<and> head (Symbol ''x'') = None \<and> args (Symbol ''x'') = None
   \<and> is_atom (Integer 5) \<and> head (Integer 5) = None \<and> args (Integer 5) = None
   \<and> is_atom (Text ''abc'') \<and> head (Text ''abc'') = None \<and> args (Text ''abc'') = None"
  using C10_atom_head_args_None [of "Symbol ''x''"]
        C10_atom_head_args_None [of "Integer 5"]
        C10_atom_head_args_None [of "Text ''abc''"]
  by simp

section \<open>Properties of the complexity metric\<close>

lemma atom_complexity_ge_1: "1 \<le> atom_complexity e"
  by (simp add: atom_complexity_def)

lemma bit_length_nonneg: "0 \<le> bit_length v"
  by (simp add: bit_length_def)

lemma sum_list_complexity_nonneg:
  "(\<And>x. x \<in> set xs \<Longrightarrow> 1 \<le> f x) \<Longrightarrow> 0 \<le> sum_list (map f xs :: int list)"
proof (induction xs)
  case Nil
  show ?case by simp
next
  case (Cons a xs)
  have "1 \<le> f a" by (rule Cons.prems) simp
  moreover have "0 \<le> sum_list (map f xs)" by (rule Cons.IH) (rule Cons.prems, simp)
  ultimately show ?case by simp
qed

lemma complexity_ge_1: "1 \<le> complexity Map.empty e"
proof (induction e)
  case (Symbol s)
  show ?case by (simp add: atom_complexity_ge_1)
next
  case (Integer v)
  show ?case using bit_length_nonneg [of v] by simp
next
  case (Text s)
  show ?case by (simp add: atom_complexity_ge_1)
next
  case (App f xs)
  have "0 \<le> sum_list (map (complexity Map.empty) xs)"
    by (rule sum_list_complexity_nonneg) (rule App.IH(2))
  with App.IH(1) show ?case by simp
qed

text \<open>
  C8 as stated fails on negative integers: the source adds one for the sign,
  \<open>1 + v.bit_length() + (v<0)\<close>, so \<open>-1\<close> costs 3 and not \<open>1 + bitlength = 2\<close>.
\<close>

theorem C8_negative_integer_counterexample:
  "complexity Map.empty (Integer (- 1)) = 3 \<and> 1 + bit_length (- 1) = 2"
  by (simp add: bit_length_def bits_of_nat.simps [of "Suc 0"] bits_of_nat.simps [of 0])

text \<open>
  C8 as amended: with an empty penalty map the metric is at least 1 on every term, an
  integer atom \<open>n\<close> costs \<open>1 + bitlength(|n|)\<close>, plus one when \<open>n\<close> is negative, and an
  application costs the complexity of its head, plus twice the sum over its arguments,
  plus one.
\<close>

theorem C8_complexity_metric:
  "1 \<le> complexity Map.empty e
   \<and> complexity Map.empty (Integer n) = 1 + bit_length n + (if n < 0 then 1 else 0)
   \<and> complexity Map.empty (App f xs) =
       complexity Map.empty f + 2 * sum_list (map (complexity Map.empty) xs) + 1"
  using complexity_ge_1 [of e] by simp

lemma keeps_limitsD:
  "keeps_limits m \<Longrightarrow> m s = (r, s') \<Longrightarrow> r \<noteq> Unfinished \<Longrightarrow>
   alg_degree_limit s' = alg_degree_limit s \<and> alg_bits_limit s' = alg_bits_limit s"
  unfolding keeps_limits_def by blast

lemma keeps_limits_ret: "keeps_limits (ret v)"
  by (simp add: keeps_limits_def ret_def)

lemma keeps_limits_lift: "keeps_limits (lift r)"
  by (cases r) (simp_all add: keeps_limits_def lift_def ret_def raise_def)

lemma keeps_limits_bindM:
  assumes "keeps_limits m" and "\<And>v. keeps_limits (f v)"
  shows "keeps_limits (bindM m f)"
  unfolding keeps_limits_def
proof (intro allI impI)
  fix s r s'
  assume a: "bindM m f s = (r, s') \<and> r \<noteq> Unfinished"
  obtain r1 s1 where m: "m s = (r1, s1)" by force
  show "alg_degree_limit s' = alg_degree_limit s \<and> alg_bits_limit s' = alg_bits_limit s"
  proof (cases r1)
    case (Returns v)
    with a m have f: "f v s1 = (r, s')" by (simp add: bindM_def)
    have "alg_degree_limit s1 = alg_degree_limit s \<and> alg_bits_limit s1 = alg_bits_limit s"
      using keeps_limitsD [OF assms(1) m] Returns by simp
    moreover
    have "alg_degree_limit s' = alg_degree_limit s1 \<and> alg_bits_limit s' = alg_bits_limit s1"
      using keeps_limitsD [OF assms(2) f] a by simp
    ultimately show ?thesis by simp
  next
    case (Raises e)
    with a m have "r = Raises e" "s' = s1" by (simp_all add: bindM_def)
    with keeps_limitsD [OF assms(1) m] Raises show ?thesis by simp
  next
    case Unfinished
    with a m show ?thesis by (auto simp: bindM_def)
  qed
qed

lemma keeps_limits_equal_exact: "keeps_limits (equal_exact E a c)"
  unfolding keeps_limits_def
  by (auto simp: equal_exact_def bindM_def try_finally_def alg_get_degree_limit_def
        alg_get_bits_limit_def alg_set_degree_limit_def alg_set_bits_limit_def ret_def
      split: prod.splits outcome.splits option.splits)

lemma keeps_limits_equal: "keeps_limits (equal_tern E b a c)"
  unfolding equal_tern_def
  by (auto intro!: keeps_limits_ret keeps_limits_lift keeps_limits_bindM keeps_limits_equal_exact
      split: option.splits)

text \<open>
  C3: when \<open>Brain.equal(a, b)\<close> finishes, by returning or by raising, the global degree
  limit and bit-size limit of the algebraic backend are the ones from before the call.
\<close>

theorem C3_equal_restores_limits:
  assumes "equal_tern E b a c s = (r, s')" and "r \<noteq> Unfinished"
  shows "alg_degree_limit s' = alg_degree_limit s \<and> alg_bits_limit s' = alg_bits_limit s"
  using keeps_limitsD [OF keeps_limits_equal assms] .

lemmas monad_defs = bindM_def ret_def raise_def unfinished_def lift_def cache_lookup_def
  cache_store_def

theorem C3_equal_restores_limits_witness:
  "equal_tern
     (E0\<lparr>evaluate_alg_or_None := (\<lambda>x s. (Returns (Some 1), s\<lparr>alg_degree_limit := 7\<rparr>))\<rparr>)
     empty_brain (Symbol ''a'') (Symbol ''b'') (fresh_state 10 20)
   = (Returns yes, fresh_state 10 20)
   \<and> alg_degree_limit (fresh_state 10 20) = 10 \<and> alg_bits_limit (fresh_state 10 20) = 20"
proof -
  let ?E = "E0\<lparr>evaluate_alg_or_None := (\<lambda>x s. (Returns (Some 1), s\<lparr>alg_degree_limit := 7\<rparr>))\<rparr>"
  have run: "equal_tern ?E empty_brain (Symbol ''a'') (Symbol ''b'') (fresh_state 10 20)
             = (Returns yes, fresh_state 10 20)"
    by (simp add: equal_tern_def equal_numeric_def equal_exact_def try_finally_def E0_def
          empty_brain_def fresh_state_def bindE_def monad_defs alg_get_degree_limit_def
          alg_get_bits_limit_def alg_set_degree_limit_def alg_set_bits_limit_def)
  have fin: "Returns yes \<noteq> (Unfinished :: tern outcome)" by simp
  from C3_equal_restores_limits [OF run fin] run show ?thesis
    by (simp add: fresh_state_def)
qed

lemmas simple_defs = Brain_methods.simps Brain_simple_def dispatch_def has_handler_def
  modelled_handlers_def unmodelled_handlers_def call_handler_def

lemma Brain_init_Element_ZZ:
  "Brain_init es [Symbol v] (Some (Element (Symbol v) ZZ)) Map.empty =
     Returns \<lparr>variables = {Symbol v}, assumptions = {Element (Symbol v) ZZ},
              inferences = {Element (Symbol v) ZZ, Element (Symbol v) QQ, Element (Symbol v) RR,
                            Element (Symbol v) CC, Element (Symbol v) AlgebraicNumbers},
              penalty = Map.empty, expr_db = [], match_db = []\<rparr>"
  by (simp add: Brain_init_def infer_def bindO_def infer_domain.simps [where dm = ZZ] insert_commute)

lemma in_facts_simple:
  "e \<in> inferences b \<Longrightarrow> m_simple (Brain_methods E b (Suc n)) e s = (Returns True_sym, s)"
  by (simp add: Brain_methods.simps Brain_simple_def ret_def)

text \<open>
  C4: in the session whose only hypothesis is \<open>x \<in> ZZ\<close>, simplifying \<open>Element(x, ZZ)\<close>,
  \<open>Element(x, QQ)\<close>, \<open>Element(x, RR)\<close>, \<open>Element(x, CC)\<close> and
  \<open>Element(x, AlgebraicNumbers)\<close> gives the literal \<open>True_\<close>, and simplifying
  \<open>Element(x, PP)\<close> gives \<open>Element(x, PP)\<close> back, neither \<open>True_\<close> nor \<open>False_\<close>.
\<close>

theorem C4_domain_lattice_closure:
  "(case Brain_init es [Symbol v] (Some (Element (Symbol v) ZZ)) Map.empty of
      Returns b \<Rightarrow>
        m_simple (Brain_methods E b (Suc n)) (Element (Symbol v) ZZ) s = (Returns True_sym, s)
        \<and> m_simple (Brain_methods E b (Suc n)) (Element (Symbol v) QQ) s = (Returns True_sym, s)
        \<and> m_simple (Brain_methods E b (Suc n)) (Element (Symbol v) RR) s = (Returns True_sym, s)
        \<and> m_simple (Brain_methods E b (Suc n)) (Element (Symbol v) CC) s = (Returns True_sym, s)
        \<and> m_simple (Brain_methods E b (Suc n)) (Element (Symbol v) AlgebraicNumbers) s
            = (Returns True_sym, s)
        \<and> fst (m_simple (Brain_methods E b (Suc (Suc (Suc n)))) (Element (Symbol v) PP)
                 (fresh_state d k))
            = Returns (Element (Symbol v) PP)
    | Raises e \<Rightarrow> False
    | Unfinished \<Rightarrow> False)"
  by (simp add: Brain_init_Element_ZZ in_facts_simple simple_defs simple_Element_def
        element.simps [where x = "Symbol v" and S = PP] is_pred_def
        prd.simps(8) [where x = "Symbol v"] monad_defs fresh_state_def truthy_def)














lemma sum_unroll_True:
  assumes "m_simple self a0 s = (Returns (Integer a), s1)"
    and "m_simple self c0 s1 = (Returns (Integer c), s2)"
  shows "sum_unroll self xs ex (App For [var, a0, c0]) True_sym s =
           (if c - a < 100
            then m_simple self (App Add (map (\<lambda>i. replace [(var, Integer i)] ex) [a..c])) s2
            else (Returns (App Sum_sym xs), s2))"
  using assms by (simp add: sum_unroll_def monad_defs Let_def)

text \<open>
  C7 as amended: for \<open>Sum(expr, For(var, a, b))\<close> without a condition, or with the literal
  condition \<open>True_\<close>, whose bounds simplify to the integer literals \<open>a\<close> and \<open>b\<close>,
  \<open>simple_Sum\<close> returns the simplification of \<open>Add\<close> of the terms for
  \<open>var := a, \<dots>, b\<close> exactly when \<open>b - a < 100\<close>, that is for a range of at most 100
  terms, and returns the \<open>Sum\<close> unevaluated when \<open>b - a \<ge> 100\<close>, a range of 101 terms or
  more.
\<close>

theorem C7_sum_unrolls_up_to_100_terms:
  assumes "m_simple self a0 s = (Returns (Integer a), s1)"
    and "m_simple self c0 s1 = (Returns (Integer c), s2)"
  shows "simple_Sum self [ex, App For [var, a0, c0]] s =
           (if c - a < 100
            then m_simple self (App Add (map (\<lambda>i. replace [(var, Integer i)] ex) [a..c])) s2
            else (Returns (App Sum_sym [ex, App For [var, a0, c0]]), s2))
       \<and> simple_Sum self [ex, App For [var, a0, c0], True_sym] s =
           (if c - a < 100
            then m_simple self (App Add (map (\<lambda>i. replace [(var, Integer i)] ex) [a..c])) s2
            else (Returns (App Sum_sym [ex, App For [var, a0, c0], True_sym]), s2))"
  using assms by (simp add: simple_Sum_def sum_unroll_True)

































end
